theory Spec2Isabelle
  imports Complex_Main "HOL-Library.Multiset"
begin

section \<open>Data model\<close>

text \<open>
  The simulator (\<^verbatim>\<open>xg_simulator.py\<close>) reads three numbers of a \<^verbatim>\<open>Team\<close>
  (\<^verbatim>\<open>soccer_xg_sim_dlp.py\<close>): \<^verbatim>\<open>avg_xg_for\<close>, \<^verbatim>\<open>xg_efficiency\<close> and
  \<^verbatim>\<open>defensive_efficiency\<close>, and the two strings of \<^verbatim>\<open>get_display_name\<close>. The
  other attributes of the class (league, coach, win and loss counts, ...) are never read
  by the simulator and are left out of the record.

  Python floats are modelled as exact reals: rounding, infinities and NaN are not part
  of the model. What the model keeps of Python's arithmetic is that \<^verbatim>\<open>/\<close> raises
  \<^verbatim>\<open>ZeroDivisionError\<close> on a zero divisor.
\<close>

record team =
  name :: string
  season :: string
  avg_xg_for :: real
  xg_efficiency :: real
  defensive_efficiency :: real

datatype error = ValueError | ZeroDivisionError

definition get_display_name :: "team \<Rightarrow> string" where
  "get_display_name t = name t @ '' ('' @ season t @ '')''"

definition py_div :: "real \<Rightarrow> real \<Rightarrow> error + real" where
  "py_div a b = (if b = 0 then Inl ZeroDivisionError else Inr (a / b))"

text \<open>A team profile is valid when its three statistics are strictly positive.\<close>

definition valid_team :: "team \<Rightarrow> bool" where
  "valid_team t \<longleftrightarrow> 0 < avg_xg_for t \<and> 0 < xg_efficiency t \<and> 0 < defensive_efficiency t"

section \<open>The expected-goals adjuster\<close>

text \<open>
  \<^verbatim>\<open>calculate_expected_goals(team, opponent, is_home, neutral_venue)\<close>: the local
  \<^verbatim>\<open>home_advantage = 1.2\<close> is applied to the attack and, in the opposite sense, to
  the opponent's defence; the only operation that can raise is the final division.
\<close>

definition calculate_expected_goals :: "team \<Rightarrow> team \<Rightarrow> bool \<Rightarrow> bool \<Rightarrow> error + real" where
  "calculate_expected_goals tm opponent is_home neutral =
     (let base_xg = avg_xg_for tm;
          home_advantage = 1.2;
          base_xg = (if \<not> neutral
                     then (if is_home then base_xg * home_advantage else base_xg / home_advantage)
                     else base_xg);
          xg_with_efficiency = base_xg * xg_efficiency tm;
          opponent_defensive_factor = defensive_efficiency opponent;
          opponent_defensive_factor =
            (if \<not> neutral
             then (if is_home then opponent_defensive_factor / home_advantage
                   else opponent_defensive_factor * home_advantage)
             else opponent_defensive_factor)
      in py_div xg_with_efficiency opponent_defensive_factor)"

section \<open>The random source\<close>

text \<open>
  \<^verbatim>\<open>np.random.poisson\<close> belongs to numpy, not to this repository. It is modelled by
  its contract: a rate below zero, or above the largest rate the legacy generator accepts
  (\<^verbatim>\<open>iinfo('l').max - sqrt(iinfo('l').max) * 10\<close>, which for a 64-bit \<^verbatim>\<open>long\<close>
  is the double 9223372006484770816), raises \<^verbatim>\<open>ValueError\<close>; a rate of zero
  returns 0 without touching the generator; any other rate returns the generator's next
  draw. The generator's state is the tape of draws it is going to produce and the number
  of draws already taken, so every sequence of goal counts is a possible run.
\<close>

record rng =
  rng_tape :: "nat \<Rightarrow> nat"
  rng_pos :: nat

definition POISSON_LAM_MAX :: real where
  "POISSON_LAM_MAX = 9223372006484770816"

definition np_random_poisson :: "real \<Rightarrow> rng \<Rightarrow> (error + nat) \<times> rng" where
  "np_random_poisson lam g =
     (if \<not> lam \<le> POISSON_LAM_MAX then (Inl ValueError, g)
      else if \<not> 0 \<le> lam then (Inl ValueError, g)
      else if lam = 0 then (Inr 0, g)
      else (Inr (rng_tape g (rng_pos g)), g\<lparr>rng_pos := Suc (rng_pos g)\<rparr>))"

section \<open>A single match\<close>

record match =
  home_team :: team
  away_team :: team
  home_goals :: nat
  away_goals :: nat
  played :: bool
  neutral_venue :: bool
  home_advantage_factor :: real
  variance_factor :: real

text \<open>\<^verbatim>\<open>Match.__init__(home_team, away_team, neutral_venue=False)\<close>.\<close>

definition Match :: "team \<Rightarrow> team \<Rightarrow> bool \<Rightarrow> match" where
  "Match h a neutral =
     \<lparr>home_team = h, away_team = a, home_goals = 0, away_goals = 0, played = False,
      neutral_venue = neutral,
      home_advantage_factor = (if neutral then 1.0 else 1.2),
      variance_factor = 0.15\<rparr>"

definition set_neutral_venue :: "match \<Rightarrow> bool \<Rightarrow> match" where
  "set_neutral_venue m is_neutral =
     m\<lparr>neutral_venue := is_neutral,
       home_advantage_factor := (if is_neutral then 1.0 else 1.2)\<rparr>"

text \<open>
  The two rates that \<^verbatim>\<open>Match.simulate\<close> computes inline, under the names of its
  local variables. Each \<^verbatim>\<open>/\<close> of the source is a \<^const>\<open>py_div\<close>.
\<close>

definition expected_home_goals :: "match \<Rightarrow> error + real" where
  "expected_home_goals m =
     (let base_home_xg = avg_xg_for (home_team m);
          home_xg_with_advantage = base_home_xg * home_advantage_factor m;
          home_xg_with_efficiency = home_xg_with_advantage * xg_efficiency (home_team m);
          away_defensive_factor = defensive_efficiency (away_team m)
      in case (if \<not> neutral_venue m
               then (case py_div 1 (home_advantage_factor m) of
                       Inl e \<Rightarrow> Inl e
                     | Inr r \<Rightarrow> Inr (away_defensive_factor * r))
               else Inr away_defensive_factor) of
           Inl e \<Rightarrow> Inl e
         | Inr away_defensive_factor \<Rightarrow> py_div home_xg_with_efficiency away_defensive_factor)"

definition expected_away_goals :: "match \<Rightarrow> error + real" where
  "expected_away_goals m =
     (let base_away_xg = avg_xg_for (away_team m)
      in case (if \<not> neutral_venue m then py_div base_away_xg (home_advantage_factor m)
               else Inr base_away_xg) of
           Inl e \<Rightarrow> Inl e
         | Inr away_xg_with_disadvantage \<Rightarrow>
             (let away_xg_with_efficiency = away_xg_with_disadvantage * xg_efficiency (away_team m);
                  home_defensive_factor = defensive_efficiency (home_team m);
                  home_defensive_factor =
                    (if \<not> neutral_venue m then home_defensive_factor * home_advantage_factor m
                     else home_defensive_factor)
              in py_div away_xg_with_efficiency home_defensive_factor))"

text \<open>
  \<^verbatim>\<open>Match.simulate\<close>: both rates are computed first, then the home goals and the
  away goals are drawn in this order, then \<^verbatim>\<open>played\<close> is set. An exception leaves the
  generator where the failing call found it. The object of a failed call is not
  returned: its \<^verbatim>\<open>played\<close> flag is still false, and \<^verbatim>\<open>simulate_match\<close> and
  \<^verbatim>\<open>run_simulations\<close> hold it in a local variable only.
\<close>

definition simulate :: "match \<Rightarrow> rng \<Rightarrow> (error + match) \<times> rng" where
  "simulate m g =
     (case expected_home_goals m of
        Inl e \<Rightarrow> (Inl e, g)
      | Inr ehg \<Rightarrow>
     (case expected_away_goals m of
        Inl e \<Rightarrow> (Inl e, g)
      | Inr eag \<Rightarrow>
     (case np_random_poisson ehg g of
        (Inl e, g1) \<Rightarrow> (Inl e, g1)
      | (Inr hg, g1) \<Rightarrow>
     (case np_random_poisson eag g1 of
        (Inl e, g2) \<Rightarrow> (Inl e, g2)
      | (Inr ag, g2) \<Rightarrow>
          (Inr (m\<lparr>home_goals := hg, away_goals := ag, played := True\<rparr>), g2)))))"

text \<open>Python's \<^verbatim>\<open>str\<close> of a non-negative integer, as the f-strings use it.\<close>

definition digit_char :: "nat \<Rightarrow> char" where
  "digit_char d = ''0123456789'' ! d"

fun str_nat :: "nat \<Rightarrow> string" where
  "str_nat n = (if n < 10 then [digit_char n] else str_nat (n div 10) @ [digit_char (n mod 10)])"

declare str_nat.simps [simp del]

text \<open>
  The dictionary returned by \<^verbatim>\<open>Match.get_result\<close>. Its keys \<^verbatim>\<open>home_team\<close>,
  \<^verbatim>\<open>away_team\<close>, \<^verbatim>\<open>home_goals\<close> and \<^verbatim>\<open>away_goals\<close> carry the suffix
  \<open>_r\<close> here, the names being taken by the fields of \<^typ>\<open>match\<close>.
\<close>

record match_result =
  home_team_r :: string
  away_team_r :: string
  home_goals_r :: nat
  away_goals_r :: nat
  result :: string
  score_line :: string

definition get_result :: "match \<Rightarrow> error + match_result" where
  "get_result m =
     (if \<not> played m then Inl ValueError
      else Inr \<lparr>home_team_r = get_display_name (home_team m),
                away_team_r = get_display_name (away_team m),
                home_goals_r = home_goals m,
                away_goals_r = away_goals m,
                result = (if home_goals m > away_goals m then ''Home Win''
                          else if away_goals m > home_goals m then ''Away Win'' else ''Draw''),
                score_line = str_nat (home_goals m) @ ''-'' @ str_nat (away_goals m)\<rparr>)"

section \<open>The Monte Carlo aggregator\<close>

text \<open>
  A Python \<^verbatim>\<open>dict\<close> keeps its keys in insertion order, which the ranking of the
  scorelines depends on, so a dictionary is an association list: \<^verbatim>\<open>d.get(k, default)\<close>
  and \<^verbatim>\<open>d[k] = v\<close>, which overwrites the value of a key in place and appends a new
  key at the end.
\<close>

fun dict_get :: "('k \<times> 'v) list \<Rightarrow> 'k \<Rightarrow> 'v \<Rightarrow> 'v" where
  "dict_get [] k d = d"
| "dict_get ((k', v') # kvs) k d = (if k' = k then v' else dict_get kvs k d)"

fun dict_set :: "('k \<times> 'v) list \<Rightarrow> 'k \<Rightarrow> 'v \<Rightarrow> ('k \<times> 'v) list" where
  "dict_set [] k v = [(k, v)]"
| "dict_set ((k', v') # kvs) k v = (if k' = k then (k', v) # kvs else (k', v') # dict_set kvs k v)"

definition dict_values :: "('k \<times> 'v) list \<Rightarrow> 'v list" where
  "dict_values d = map snd d"

text \<open>One entry of the list \<^verbatim>\<open>most_common_scores\<close>.\<close>

record score_entry =
  score :: string
  count_e :: nat
  prob :: real

text \<open>
  The dictionary \<^verbatim>\<open>results\<close>. The keys \<^verbatim>\<open>home_team\<close>, \<^verbatim>\<open>away_team\<close>,
  \<^verbatim>\<open>home_goals\<close> and \<^verbatim>\<open>away_goals\<close> carry the suffix \<open>_s\<close>. The six keys
  from \<^verbatim>\<open>avg_home_goals\<close> on are added after the loop; until then the record holds 0
  and the empty list for them.
\<close>

record sim_results =
  home_team_s :: string
  away_team_s :: string
  venue_type :: string
  num_simulations :: int
  home_wins :: nat
  away_wins :: nat
  draws :: nat
  home_goals_s :: nat
  away_goals_s :: nat
  score_counts :: "(string \<times> nat) list"
  home_goal_counts :: "(nat \<times> nat) list"
  away_goal_counts :: "(nat \<times> nat) list"
  avg_home_goals :: real
  avg_away_goals :: real
  home_win_prob :: real
  away_win_prob :: real
  draw_prob :: real
  most_common_scores :: "score_entry list"

definition initial_results :: "team \<Rightarrow> team \<Rightarrow> int \<Rightarrow> bool \<Rightarrow> sim_results" where
  "initial_results h a num neutral =
     \<lparr>home_team_s = get_display_name h,
      away_team_s = get_display_name a,
      venue_type = (if neutral then ''Neutral Venue'' else ''Home/Away''),
      num_simulations = num,
      home_wins = 0, away_wins = 0, draws = 0,
      home_goals_s = 0, away_goals_s = 0,
      score_counts = [], home_goal_counts = [], away_goal_counts = [],
      avg_home_goals = 0, avg_away_goals = 0,
      home_win_prob = 0, away_win_prob = 0, draw_prob = 0,
      most_common_scores = []\<rparr>"

text \<open>The body of the loop after \<^verbatim>\<open>match.get_result()\<close>: the updates of one trial.\<close>

definition record_trial :: "sim_results \<Rightarrow> match_result \<Rightarrow> sim_results" where
  "record_trial results mr =
     (let results =
            (if result mr = ''Home Win'' then results\<lparr>home_wins := home_wins results + 1\<rparr>
             else if result mr = ''Away Win'' then results\<lparr>away_wins := away_wins results + 1\<rparr>
             else results\<lparr>draws := draws results + 1\<rparr>);
          results = results\<lparr>home_goals_s := home_goals_s results + home_goals_r mr\<rparr>;
          results = results\<lparr>away_goals_s := away_goals_s results + away_goals_r mr\<rparr>;
          score_key = score_line mr;
          results = results\<lparr>score_counts :=
                      dict_set (score_counts results) score_key
                        (dict_get (score_counts results) score_key 0 + 1)\<rparr>;
          hg = home_goals_r mr;
          ag = away_goals_r mr;
          results = results\<lparr>home_goal_counts :=
                      dict_set (home_goal_counts results) hg
                        (dict_get (home_goal_counts results) hg 0 + 1)\<rparr>
      in results\<lparr>away_goal_counts :=
                   dict_set (away_goal_counts results) ag
                     (dict_get (away_goal_counts results) ag 0 + 1)\<rparr>)"

text \<open>
  \<^verbatim>\<open>for _ in range(num_simulations)\<close>, by the number of trials still to run. Every
  trial builds a fresh \<^verbatim>\<open>Match\<close>, simulates it and records its result; an exception
  of \<^verbatim>\<open>simulate\<close> or \<^verbatim>\<open>get_result\<close> ends the run.
\<close>

fun simulation_loop ::
  "nat \<Rightarrow> team \<Rightarrow> team \<Rightarrow> bool \<Rightarrow> sim_results \<Rightarrow> rng \<Rightarrow> (error + sim_results) \<times> rng" where
  "simulation_loop 0 h a neutral results g = (Inr results, g)"
| "simulation_loop (Suc n) h a neutral results g =
     (case simulate (Match h a neutral) g of
        (Inl e, g') \<Rightarrow> (Inl e, g')
      | (Inr m, g') \<Rightarrow>
          (case get_result m of
             Inl e \<Rightarrow> (Inl e, g')
           | Inr mr \<Rightarrow> simulation_loop n h a neutral (record_trial results mr) g'))"

text \<open>
  \<^verbatim>\<open>sorted(entries, key=lambda x: x['count'], reverse=True)\<close>: Python's sort is
  stable, and with \<^verbatim>\<open>reverse=True\<close> entries of equal key still keep their original
  order. That is the stable insertion sort of the library on the negated key.
\<close>

definition sorted_by_count_reverse :: "score_entry list \<Rightarrow> score_entry list" where
  "sorted_by_count_reverse es = sort_key (\<lambda>x. - int (count_e x)) es"

text \<open>
  \<^verbatim>\<open>MatchSimulator.run_simulations\<close>. \<^verbatim>\<open>range\<close> of a number below 1 is empty,
  hence \<^term>\<open>nat num\<close> trials. The five divisions after the loop share the divisor
  \<^verbatim>\<open>num_simulations\<close>, so the first one raises \<^verbatim>\<open>ZeroDivisionError\<close> when it is
  zero, and none raises otherwise. The attribute \<^verbatim>\<open>last_simulation_results\<close>, a copy
  of the returned dictionary for the plotting method, is left out.
\<close>

definition run_simulations ::
  "team \<Rightarrow> team \<Rightarrow> int \<Rightarrow> bool \<Rightarrow> rng \<Rightarrow> (error + sim_results) \<times> rng" where
  "run_simulations h a num neutral g =
     (case simulation_loop (nat num) h a neutral (initial_results h a num neutral) g of
        (Inl e, g') \<Rightarrow> (Inl e, g')
      | (Inr results, g') \<Rightarrow>
          (if num = 0 then (Inl ZeroDivisionError, g')
           else
             (Inr (results
                \<lparr>avg_home_goals := real (home_goals_s results) / real_of_int num,
                 avg_away_goals := real (away_goals_s results) / real_of_int num,
                 home_win_prob := real (home_wins results) / real_of_int num,
                 away_win_prob := real (away_wins results) / real_of_int num,
                 draw_prob := real (draws results) / real_of_int num,
                 most_common_scores :=
                   take 10 (sorted_by_count_reverse
                     (map (\<lambda>(k, v). \<lparr>score = k, count_e = v, prob = real v / real_of_int num\<rparr>)
                          (score_counts results)))\<rparr>), g')))"

section \<open>The exact scoreline probability\<close>

text \<open>
  \<^verbatim>\<open>scipy.stats.poisson.pmf(k, mu)\<close> belongs to scipy. For a rate \<open>mu \<ge> 0\<close> it is
  the Poisson probability mass at \<open>k\<close>, which is zero at every \<open>k\<close> outside the
  support, the negative integers included. (For a negative rate scipy returns NaN, which
  the reals do not have; nothing below uses \<^term>\<open>poisson_pmf k mu\<close> at \<open>mu < 0\<close>.)
\<close>

definition poisson_pmf :: "int \<Rightarrow> real \<Rightarrow> real" where
  "poisson_pmf k mu = (if k < 0 then 0 else exp (- mu) * mu ^ nat k / fact (nat k))"

definition predict_score_probability ::
  "team \<Rightarrow> team \<Rightarrow> int \<Rightarrow> int \<Rightarrow> bool \<Rightarrow> error + real" where
  "predict_score_probability h a hg ag neutral =
     (case calculate_expected_goals h a True neutral of
        Inl e \<Rightarrow> Inl e
      | Inr home_xg \<Rightarrow>
     (case calculate_expected_goals a h False neutral of
        Inl e \<Rightarrow> Inl e
      | Inr away_xg \<Rightarrow>
          (let home_prob = poisson_pmf hg home_xg;
               away_prob = poisson_pmf ag away_xg
           in Inr (home_prob * away_prob))))"

section \<open>Vocabulary of the properties\<close>



text \<open>
  The factor by which the venue scales a rate: the attack and the opponent's defence
  each contribute one factor 1.2, in the same direction.
\<close>

definition venue_factor :: "bool \<Rightarrow> bool \<Rightarrow> real" where
  "venue_factor is_home neutral = (if neutral then 1 else if is_home then 1.44 else 1 / 1.44)"

text \<open>
  The entries that \<^verbatim>\<open>run_simulations\<close> ranks: one per key of \<^verbatim>\<open>score_counts\<close>,
  in the order of the dictionary.
\<close>

definition score_entries :: "sim_results \<Rightarrow> score_entry list" where
  "score_entries res =
     map (\<lambda>(k, v). \<lparr>score = k, count_e = v, prob = real v / real_of_int (num_simulations res)\<rparr>)
         (score_counts res)"

text \<open>
  The ranking in the words of the specification: \<open>rs\<close> holds the entries \<open>es\<close>, by
  descending count, and entries of equal count stand in \<open>rs\<close> in the order they have
  in \<open>es\<close>.
\<close>

definition ranked_stable :: "score_entry list \<Rightarrow> score_entry list \<Rightarrow> bool" where
  "ranked_stable es rs \<longleftrightarrow>
     mset rs = mset es
     \<and> sorted_wrt (\<lambda>x y. count_e y \<le> count_e x) rs
     \<and> (\<forall>c \<in> count_e ` set es.
           filter (\<lambda>x. count_e x = c) rs = filter (\<lambda>x. count_e x = c) es)"

text \<open>
  The two teams of the specification's concrete scenario, and a generator whose next
  draws are 2, 0, 0, 1, 0, 1, 1, 1: four matches ending 2-0, 0-1, 0-1 and 1-1.
\<close>

definition team_A :: team where
  "team_A = \<lparr>name = ''Team A'', season = ''2024-2025'', avg_xg_for = 1.8,
             xg_efficiency = 1.0, defensive_efficiency = 1.0\<rparr>"

definition team_B :: team where
  "team_B = \<lparr>name = ''Team B'', season = ''2024-2025'', avg_xg_for = 1.8,
             xg_efficiency = 1.0, defensive_efficiency = 1.0\<rparr>"

definition example_tape :: "nat \<Rightarrow> nat" where
  "example_tape i = (if i < 8 then [2, 0, 0, 1, 0, 1, 1, 1] ! i else 0)"

definition rng0 :: rng where
  "rng0 = \<lparr>rng_tape = example_tape, rng_pos = 0\<rparr>"

text \<open>What \<^verbatim>\<open>run_simulations\<close> returns for these two teams, four trials and that generator.\<close>

definition example_result :: sim_results where
  "example_result =
     \<lparr>home_team_s = ''Team A (2024-2025)'', away_team_s = ''Team B (2024-2025)'',
      venue_type = ''Home/Away'', num_simulations = 4,
      home_wins = 1, away_wins = 2, draws = 1,
      home_goals_s = 3, away_goals_s = 3,
      score_counts = [(''2-0'', 1), (''0-1'', 2), (''1-1'', 1)],
      home_goal_counts = [(2, 1), (0, 2), (1, 1)],
      away_goal_counts = [(0, 1), (1, 3)],
      avg_home_goals = 3 / 4, avg_away_goals = 3 / 4,
      home_win_prob = 1 / 4, away_win_prob = 2 / 4, draw_prob = 1 / 4,
      most_common_scores =
        [\<lparr>score = ''0-1'', count_e = 2, prob = 2 / 4\<rparr>,
         \<lparr>score = ''2-0'', count_e = 1, prob = 1 / 4\<rparr>,
         \<lparr>score = ''1-1'', count_e = 1, prob = 1 / 4\<rparr>]\<rparr>"

section \<open>Supporting lemmas\<close>

subsection \<open>The adjuster in closed form\<close>

lemma ceg_factor:
  "defensive_efficiency opp \<noteq> 0 \<Longrightarrow>
   calculate_expected_goals t opp ih nv =
     Inr (avg_xg_for t * xg_efficiency t / defensive_efficiency opp * venue_factor ih nv)"
  by (simp add: calculate_expected_goals_def py_div_def venue_factor_def Let_def field_simps)


lemma venue_factor_pos: "0 < venue_factor ih nv"
  by (simp add: venue_factor_def)

lemma expected_home_goals_Match:
  "expected_home_goals (Match h a nv) = calculate_expected_goals h a True nv"
  by (cases nv)
     (simp_all add: expected_home_goals_def calculate_expected_goals_def Match_def py_div_def Let_def)

lemma expected_away_goals_Match:
  "expected_away_goals (Match h a nv) = calculate_expected_goals a h False nv"
  by (cases nv)
     (simp_all add: expected_away_goals_def calculate_expected_goals_def Match_def py_div_def Let_def)

lemma valid_team_A: "valid_team team_A"
  by (simp add: valid_team_def team_A_def)

lemma valid_team_B: "valid_team team_B"
  by (simp add: valid_team_def team_B_def)

lemma rates_A_B:
  "expected_home_goals (Match team_A team_B False) = Inr 2.592"
  "expected_away_goals (Match team_A team_B False) = Inr 1.25"
  by (simp_all add: expected_home_goals_def expected_away_goals_def Match_def py_div_def
      team_A_def team_B_def)

section \<open>Properties of the adjuster\<close>



text \<open>
  Claim C2. Team A and Team B both have \<^verbatim>\<open>avg_xg_for = 1.8\<close>,
  \<^verbatim>\<open>xg_efficiency = 1.0\<close> and \<^verbatim>\<open>defensive_efficiency = 1.0\<close>. At a non-neutral venue
  the home side's expected goals are 2.592 and the away side's are 1.25.
\<close>

theorem concrete_scenario_home_away:
  "calculate_expected_goals
       \<lparr>name = ''A'', season = ''S'', avg_xg_for = 1.8, xg_efficiency = 1.0, defensive_efficiency = 1.0\<rparr>
       \<lparr>name = ''B'', season = ''S'', avg_xg_for = 1.8, xg_efficiency = 1.0, defensive_efficiency = 1.0\<rparr>
       True False = Inr 2.592
   \<and> calculate_expected_goals
       \<lparr>name = ''B'', season = ''S'', avg_xg_for = 1.8, xg_efficiency = 1.0, defensive_efficiency = 1.0\<rparr>
       \<lparr>name = ''A'', season = ''S'', avg_xg_for = 1.8, xg_efficiency = 1.0, defensive_efficiency = 1.0\<rparr>
       False False = Inr 1.25"
  by (simp add: calculate_expected_goals_def py_div_def)






section \<open>Properties of a single match\<close>

lemma simulate_returns:
  assumes "expected_home_goals m = Inr lh" and "expected_away_goals m = Inr la"
    and "0 < lh" and "lh \<le> POISSON_LAM_MAX" and "0 < la" and "la \<le> POISSON_LAM_MAX"
  shows "simulate m g =
           (Inr (m\<lparr>home_goals := rng_tape g (rng_pos g),
                   away_goals := rng_tape g (Suc (rng_pos g)), played := True\<rparr>),
            g\<lparr>rng_pos := Suc (Suc (rng_pos g))\<rparr>)"
  using assms by (simp add: simulate_def np_random_poisson_def)

lemma simulate_A_B:
  "simulate (Match team_A team_B False) g =
     (Inr ((Match team_A team_B False)\<lparr>home_goals := rng_tape g (rng_pos g),
            away_goals := rng_tape g (Suc (rng_pos g)), played := True\<rparr>),
      g\<lparr>rng_pos := Suc (Suc (rng_pos g))\<rparr>)"
  by (rule simulate_returns [OF rates_A_B]) (simp_all add: POISSON_LAM_MAX_def)

lemma simulate_A_B_rng0:
  "simulate (Match team_A team_B False) rng0 =
     (Inr ((Match team_A team_B False)\<lparr>home_goals := 2, away_goals := 0, played := True\<rparr>),
      rng0\<lparr>rng_pos := 2\<rparr>)"
  by (simp add: simulate_A_B) (simp add: rng0_def example_tape_def)

text \<open>
  Claim C10. A \<^verbatim>\<open>Match\<close> is constructed with \<^verbatim>\<open>played = False\<close>, and
  \<^verbatim>\<open>set_neutral_venue\<close> leaves the flag alone; as long as it is false,
  \<^verbatim>\<open>get_result\<close> raises \<^verbatim>\<open>ValueError\<close>. On the object that a call of
  \<^verbatim>\<open>simulate\<close> returns, \<^verbatim>\<open>get_result\<close> succeeds with the goals of the object, and
  its \<^verbatim>\<open>result\<close> is \<^verbatim>\<open>'Home Win'\<close> exactly when the home goals exceed the away goals,
  \<^verbatim>\<open>'Away Win'\<close> exactly when the away goals exceed the home goals, and
  \<^verbatim>\<open>'Draw'\<close> exactly when they are equal.
\<close>

theorem get_result_lifecycle:
  "played (Match h a neutral) = False
   \<and> played (set_neutral_venue m b) = played m
   \<and> (\<not> played m \<longrightarrow> get_result m = Inl ValueError)
   \<and> (simulate m g = (Inr m', g') \<longrightarrow>
        (\<exists>r. get_result m' = Inr r
           \<and> home_goals_r r = home_goals m' \<and> away_goals_r r = away_goals m'
           \<and> (result r = ''Home Win'' \<longleftrightarrow> home_goals m' > away_goals m')
           \<and> (result r = ''Away Win'' \<longleftrightarrow> away_goals m' > home_goals m')
           \<and> (result r = ''Draw'' \<longleftrightarrow> home_goals m' = away_goals m')))"
proof (intro conjI impI)
  assume s: "simulate m g = (Inr m', g')"
  then have "played m'"
    by (auto simp: simulate_def split: sum.splits prod.splits)
  then show "\<exists>r. get_result m' = Inr r
           \<and> home_goals_r r = home_goals m' \<and> away_goals_r r = away_goals m'
           \<and> (result r = ''Home Win'' \<longleftrightarrow> home_goals m' > away_goals m')
           \<and> (result r = ''Away Win'' \<longleftrightarrow> away_goals m' > home_goals m')
           \<and> (result r = ''Draw'' \<longleftrightarrow> home_goals m' = away_goals m')"
    by (auto simp: get_result_def)
qed (simp_all add: Match_def set_neutral_venue_def get_result_def)

theorem get_result_lifecycle_witness:
  "\<not> played (Match team_A team_B False)
   \<and> get_result (Match team_A team_B False) = Inl ValueError
   \<and> simulate (Match team_A team_B False) rng0 =
       (Inr ((Match team_A team_B False)\<lparr>home_goals := 2, away_goals := 0, played := True\<rparr>),
        rng0\<lparr>rng_pos := 2\<rparr>)
   \<and> (\<exists>r. get_result ((Match team_A team_B False)\<lparr>home_goals := 2, away_goals := 0, played := True\<rparr>) = Inr r
         \<and> result r = ''Home Win'')"
proof -
  let ?m = "Match team_A team_B False"
  let ?m' = "?m\<lparr>home_goals := 2, away_goals := 0, played := True\<rparr>"
  note t = get_result_lifecycle [where h = team_A and a = team_B and neutral = False
      and m = ?m and g = rng0 and m' = ?m' and g' = "rng0\<lparr>rng_pos := 2\<rparr>"]
  from t have np: "\<not> played ?m" by simp
  with t have e: "get_result ?m = Inl ValueError" by blast
  from t simulate_A_B_rng0 obtain r where
    "get_result ?m' = Inr r" "(result r = ''Home Win'') = (away_goals ?m' < home_goals ?m')"
    by blast
  then have "\<exists>r. get_result ?m' = Inr r \<and> result r = ''Home Win''" by simp
  with np e simulate_A_B_rng0 show ?thesis by blast
qed

section \<open>Properties of the scoreline probability\<close>

text \<open>
  Claim C6, amended. For two valid team profiles and either venue flag,
  \<^verbatim>\<open>predict_score_probability\<close> called with a negative home or away goal count raises
  nothing: it returns the probability 0.
\<close>

theorem negative_goals_probability_zero:
  assumes "valid_team h" and "valid_team a" and "hg < 0 \<or> ag < 0"
  shows "predict_score_probability h a hg ag neutral = Inr 0"
  using assms
  by (auto simp: predict_score_probability_def valid_team_def ceg_factor poisson_pmf_def Let_def)

theorem negative_goals_probability_zero_witness:
  "valid_team team_A \<and> valid_team team_B \<and> ((2::int) < 0 \<or> (- 3::int) < 0)
   \<and> predict_score_probability team_A team_B 2 (- 3) True = Inr 0"
proof -
  have neg: "(2::int) < 0 \<or> (- 3::int) < 0" by simp
  from negative_goals_probability_zero [OF valid_team_A valid_team_B neg, of True]
  show ?thesis using valid_team_A valid_team_B by simp
qed

text \<open>
  The claim as stated has the call rejected as an error. For the two teams of the
  concrete scenario and the scoreline \<open>-1\<close> to 0 the call returns a number.
\<close>

theorem negative_goals_rejected_counterexample:
  "valid_team team_A \<and> valid_team team_B
   \<and> predict_score_probability team_A team_B (- 1) 0 False = Inr 0"
  by (simp add: predict_score_probability_def team_A_def team_B_def calculate_expected_goals_def
      py_div_def poisson_pmf_def valid_team_def)

section \<open>Properties of the aggregator\<close>

text \<open>
  Claim C4, amended. \<^verbatim>\<open>run_simulations\<close> does not check \<^verbatim>\<open>num_simulations\<close>.
  With \<^verbatim>\<open>num_simulations = 0\<close> the loop runs no trial, takes no draw, and the call then
  raises \<^verbatim>\<open>ZeroDivisionError\<close> at the first average. With \<^verbatim>\<open>num_simulations < 0\<close>
  the call raises nothing: it returns the result it started from, every counter and
  every average 0 and every mapping and the ranking empty, and takes no draw.
\<close>

theorem invalid_trial_count:
  "(num = 0 \<longrightarrow> run_simulations h a num neutral g = (Inl ZeroDivisionError, g))
   \<and> (num < 0 \<longrightarrow> run_simulations h a num neutral g = (Inr (initial_results h a num neutral), g))"
  by (simp add: run_simulations_def initial_results_def sorted_by_count_reverse_def)

theorem invalid_trial_count_witness:
  "run_simulations team_A team_B 0 False rng0 = (Inl ZeroDivisionError, rng0)
   \<and> (- 5::int) < 0
   \<and> run_simulations team_A team_B (- 5) True rng0
       = (Inr (initial_results team_A team_B (- 5) True), rng0)"
  using invalid_trial_count [of 0 team_A team_B False rng0]
    invalid_trial_count [of "- 5" team_A team_B True rng0]
  by simp

text \<open>
  The claim as stated has every \<^verbatim>\<open>num_simulations < 1\<close> rejected as an error. With
  \<open>-1\<close> the call returns a result.
\<close>

theorem invalid_trial_count_counterexample:
  "(- 1::int) < 1
   \<and> run_simulations team_A team_B (- 1) False rng0
       = (Inr (initial_results team_A team_B (- 1) False), rng0)
   \<and> \<not> isl (fst (run_simulations team_A team_B (- 1) False rng0))"
  by (simp add: run_simulations_def initial_results_def sorted_by_count_reverse_def)

subsection \<open>Counting\<close>

lemma sum_dict_bump:
  "sum_list (dict_values (dict_set d k (Suc (dict_get d k 0)))) = Suc (sum_list (dict_values d))"
  by (induction d) (auto simp: dict_values_def)

lemma record_trial_counts:
  "home_wins (record_trial r mr) + away_wins (record_trial r mr) + draws (record_trial r mr)
     = home_wins r + away_wins r + draws r + 1"
  "sum_list (dict_values (score_counts (record_trial r mr)))
     = sum_list (dict_values (score_counts r)) + 1"
  "sum_list (dict_values (home_goal_counts (record_trial r mr)))
     = sum_list (dict_values (home_goal_counts r)) + 1"
  "sum_list (dict_values (away_goal_counts (record_trial r mr)))
     = sum_list (dict_values (away_goal_counts r)) + 1"
  "num_simulations (record_trial r mr) = num_simulations r"
  by (simp_all add: record_trial_def Let_def sum_dict_bump)

lemma simulation_loop_counts:
  "simulation_loop n h a neutral r g = (Inr r', g') \<Longrightarrow>
     home_wins r' + away_wins r' + draws r' = home_wins r + away_wins r + draws r + n
   \<and> sum_list (dict_values (score_counts r')) = sum_list (dict_values (score_counts r)) + n
   \<and> sum_list (dict_values (home_goal_counts r')) = sum_list (dict_values (home_goal_counts r)) + n
   \<and> sum_list (dict_values (away_goal_counts r')) = sum_list (dict_values (away_goal_counts r)) + n
   \<and> num_simulations r' = num_simulations r"
proof (induction n arbitrary: r g)
  case 0
  then show ?case by simp
next
  case (Suc n)
  from Suc.prems obtain g1 mr where
    "simulation_loop n h a neutral (record_trial r mr) g1 = (Inr r', g')"
    by (auto split: prod.splits sum.splits)
  from Suc.IH [OF this] show ?case
    by (simp add: record_trial_counts)
qed

subsection \<open>The example run\<close>

lemma str_nat_digit: "n < 10 \<Longrightarrow> str_nat n = [digit_char n]"
  by (simp add: str_nat.simps)

lemma trial_step:
  assumes "simulate (Match h a neutral) g = (Inr m, g1)" and "get_result m = Inr mr"
  shows "simulation_loop (Suc n) h a neutral r g
           = simulation_loop n h a neutral (record_trial r mr) g1"
  using assms by simp

lemma get_result_A_B:
  "get_result ((Match team_A team_B False)\<lparr>home_goals := x, away_goals := y, played := True\<rparr>) =
     Inr \<lparr>home_team_r = ''Team A (2024-2025)'', away_team_r = ''Team B (2024-2025)'',
          home_goals_r = x, away_goals_r = y,
          result = (if x > y then ''Home Win'' else if y > x then ''Away Win'' else ''Draw''),
          score_line = str_nat x @ ''-'' @ str_nat y\<rparr>"
  by (simp add: get_result_def get_display_name_def Match_def team_A_def team_B_def)

lemma trial_A_B:
  "simulation_loop (Suc n) team_A team_B False r g =
     simulation_loop n team_A team_B False
       (record_trial r
          \<lparr>home_team_r = ''Team A (2024-2025)'', away_team_r = ''Team B (2024-2025)'',
           home_goals_r = rng_tape g (rng_pos g), away_goals_r = rng_tape g (Suc (rng_pos g)),
           result = (if rng_tape g (rng_pos g) > rng_tape g (Suc (rng_pos g)) then ''Home Win''
                     else if rng_tape g (Suc (rng_pos g)) > rng_tape g (rng_pos g) then ''Away Win''
                     else ''Draw''),
           score_line = str_nat (rng_tape g (rng_pos g)) @ ''-''
                          @ str_nat (rng_tape g (Suc (rng_pos g)))\<rparr>)
       (g\<lparr>rng_pos := Suc (Suc (rng_pos g))\<rparr>)"
  by (rule trial_step [OF simulate_A_B get_result_A_B])

lemma example_loop:
  "simulation_loop 4 team_A team_B False (initial_results team_A team_B 4 False) rng0 =
    (Inr \<lparr>home_team_s = ''Team A (2024-2025)'',
         away_team_s = ''Team B (2024-2025)'', venue_type = ''Home/Away'',
         num_simulations = 4, home_wins = 1, away_wins = 2, draws = 1,
         home_goals_s = 3, away_goals_s = 3,
         score_counts = [(''2-0'', 1), (''0-1'', 2), (''1-1'', 1)],
         home_goal_counts = [(2, 1), (0, 2), (1, 1)],
         away_goal_counts = [(0, 1), (1, 3)],
         avg_home_goals = 0, avg_away_goals = 0, home_win_prob = 0,
         away_win_prob = 0, draw_prob = 0,
         most_common_scores = []\<rparr>, rng0\<lparr>rng_pos := 8\<rparr>)"
proof -
  have four: "(4::nat) = Suc (Suc (Suc (Suc 0)))" by simp
  show ?thesis
    unfolding four trial_A_B simulation_loop.simps(1)
    by (simp add: rng0_def example_tape_def record_trial_def initial_results_def
        get_display_name_def team_A_def team_B_def str_nat_digit digit_char_def)
qed

lemma example_run:
  "run_simulations team_A team_B 4 False rng0 = (Inr example_result, rng0\<lparr>rng_pos := 8\<rparr>)"
proof -
  have "nat 4 = (4::nat)" by simp
  then show ?thesis
    unfolding run_simulations_def example_loop
    by (simp add: example_loop example_result_def sorted_by_count_reverse_def)
qed

text \<open>
  Claim C3. For two valid team profiles, either venue flag and \<^verbatim>\<open>num_simulations \<ge> 1\<close>,
  whatever the generator draws, the result that \<^verbatim>\<open>run_simulations\<close> returns has
  \<^verbatim>\<open>home_wins + away_wins + draws\<close> equal to \<^verbatim>\<open>num_simulations\<close>, and the values of
  \<^verbatim>\<open>score_counts\<close>, of \<^verbatim>\<open>home_goal_counts\<close> and of \<^verbatim>\<open>away_goal_counts\<close> each
  sum to \<^verbatim>\<open>num_simulations\<close>.
\<close>

theorem counts_sum_to_trials:
  assumes "valid_team h" and "valid_team a" and "1 \<le> num"
    and "run_simulations h a num neutral g = (Inr res, g')"
  shows "int (home_wins res + away_wins res + draws res) = num
       \<and> int (sum_list (dict_values (score_counts res))) = num
       \<and> int (sum_list (dict_values (home_goal_counts res))) = num
       \<and> int (sum_list (dict_values (away_goal_counts res))) = num"
proof -
  from assms(4) obtain r where
    loop: "simulation_loop (nat num) h a neutral (initial_results h a num neutral) g = (Inr r, g')"
    and res: "home_wins res = home_wins r" "away_wins res = away_wins r" "draws res = draws r"
      "score_counts res = score_counts r" "home_goal_counts res = home_goal_counts r"
      "away_goal_counts res = away_goal_counts r"
    by (auto simp: run_simulations_def split: prod.splits sum.splits if_splits)
  from simulation_loop_counts [OF loop] assms(3) show ?thesis
    by (simp add: res initial_results_def dict_values_def)
qed

theorem counts_sum_to_trials_witness:
  "valid_team team_A \<and> valid_team team_B \<and> (1::int) \<le> 4
   \<and> run_simulations team_A team_B 4 False rng0 = (Inr example_result, rng0\<lparr>rng_pos := 8\<rparr>)
   \<and> int (home_wins example_result + away_wins example_result + draws example_result) = 4
   \<and> int (sum_list (dict_values (score_counts example_result))) = 4
   \<and> int (sum_list (dict_values (home_goal_counts example_result))) = 4
   \<and> int (sum_list (dict_values (away_goal_counts example_result))) = 4"
proof -
  have n: "(1::int) \<le> 4" by simp
  from counts_sum_to_trials [OF valid_team_A valid_team_B n example_run]
  show ?thesis
    using valid_team_A valid_team_B example_run by simp
qed

text \<open>
  For valid teams whose two rates numpy accepts, every run of at least one trial does
  return a result, so the statement above is about something.
\<close>

lemma simulation_loop_returns:
  assumes "expected_home_goals (Match h a neutral) = Inr lh"
    and "expected_away_goals (Match h a neutral) = Inr la"
    and "0 < lh" and "lh \<le> POISSON_LAM_MAX" and "0 < la" and "la \<le> POISSON_LAM_MAX"
  shows "\<exists>r' g'. simulation_loop n h a neutral r g = (Inr r', g')"
proof (induction n arbitrary: r g)
  case 0
  show ?case by simp
next
  case (Suc n)
  let ?m = "(Match h a neutral)\<lparr>home_goals := rng_tape g (rng_pos g),
              away_goals := rng_tape g (Suc (rng_pos g)), played := True\<rparr>"
  have s: "simulate (Match h a neutral) g = (Inr ?m, g\<lparr>rng_pos := Suc (Suc (rng_pos g))\<rparr>)"
    by (rule simulate_returns [OF assms])
  obtain mr where mr: "get_result ?m = Inr mr"
    by (simp add: get_result_def)
  from Suc.IH [of "record_trial r mr" "g\<lparr>rng_pos := Suc (Suc (rng_pos g))\<rparr>"]
  show ?case
    unfolding trial_step [OF s mr] .
qed

lemma run_simulations_returns:
  assumes "valid_team h" and "valid_team a" and "1 \<le> num"
    and "calculate_expected_goals h a True neutral = Inr lh" and "lh \<le> POISSON_LAM_MAX"
    and "calculate_expected_goals a h False neutral = Inr la" and "la \<le> POISSON_LAM_MAX"
  shows "\<exists>res g'. run_simulations h a num neutral g = (Inr res, g')"
proof -
  have "0 < avg_xg_for h * xg_efficiency h / defensive_efficiency a * venue_factor True neutral"
    using assms(1,2) venue_factor_pos [of True neutral] by (simp add: valid_team_def)
  then have lh: "0 < lh"
    using assms(2,4) by (simp add: ceg_factor valid_team_def)
  have "0 < avg_xg_for a * xg_efficiency a / defensive_efficiency h * venue_factor False neutral"
    using assms(1,2) venue_factor_pos [of False neutral] by (simp add: valid_team_def)
  then have la: "0 < la"
    using assms(1,6) by (simp add: ceg_factor valid_team_def)
  from simulation_loop_returns [of h a neutral lh la "nat num" "initial_results h a num neutral" g]
  obtain r' g' where
    "simulation_loop (nat num) h a neutral (initial_results h a num neutral) g = (Inr r', g')"
    using assms(4-7) lh la
    by (auto simp: expected_home_goals_Match expected_away_goals_Match)
  then show ?thesis
    using assms(3) by (simp add: run_simulations_def)
qed

subsection \<open>Ranking\<close>

lemma sorted_by_count_reverse_ranked: "ranked_stable es (sorted_by_count_reverse es)"
proof -
  let ?f = "\<lambda>x. - int (count_e x)"
  have "sorted (map ?f (sort_key ?f es))" by (rule sorted_sort_key)
  then have s: "sorted_wrt (\<lambda>x y. count_e y \<le> count_e x) (sort_key ?f es)"
    by (simp add: sorted_wrt_map)
  have "filter (\<lambda>x. count_e x = c) (sort_key ?f es) = filter (\<lambda>x. count_e x = c) es" for c
    using sort_key_stable [of ?f "- int c" es] by simp
  with s show ?thesis
    by (simp add: ranked_stable_def sorted_by_count_reverse_def)
qed

lemma ranked_stable_unique:
  assumes "ranked_stable es rs"
  shows "rs = sorted_by_count_reverse es"
proof -
  let ?f = "\<lambda>x. - int (count_e x)"
  from assms have m: "mset rs = mset es"
    and s: "sorted_wrt (\<lambda>x y. count_e y \<le> count_e x) rs"
    and f: "\<And>c. c \<in> count_e ` set es \<Longrightarrow>
              filter (\<lambda>x. count_e x = c) rs = filter (\<lambda>x. count_e x = c) es"
    by (auto simp: ranked_stable_def)
  from m have set: "set rs = set es" by (rule mset_eq_setD)
  have "sort_key ?f es = rs"
  proof (rule properties_for_sort_key [OF m])
    fix k assume "k \<in> set rs"
    then have "count_e k \<in> count_e ` set es" using set by simp
    from f [OF this]
    show "filter (\<lambda>x. ?f k = ?f x) rs = filter (\<lambda>x. ?f k = ?f x) es"
      by (simp add: eq_commute [of "count_e k"])
  next
    from s show "sorted (map ?f rs)"
      by (simp add: sorted_wrt_map)
  qed
  then show ?thesis
    by (simp add: sorted_by_count_reverse_def)
qed

text \<open>
  Claim C9. In the result of a run with \<^verbatim>\<open>num_simulations \<ge> 1\<close> there is exactly one
  ranking of the entries of \<^verbatim>\<open>score_counts\<close> by descending count in which entries of
  equal count keep their insertion order, and \<^verbatim>\<open>most_common_scores\<close> is its first ten
  entries: \<open>min 10 n\<close> entries for \<open>n\<close> distinct scorelines, hence the whole ranking
  when there are at most ten.
\<close>

theorem most_common_scores_ranked:
  assumes "1 \<le> num" and "run_simulations h a num neutral g = (Inr res, g')"
  shows "\<exists>ranked. ranked_stable (score_entries res) ranked
           \<and> (\<forall>rs. ranked_stable (score_entries res) rs \<longrightarrow> rs = ranked)
           \<and> most_common_scores res = take 10 ranked
           \<and> length (most_common_scores res) = min 10 (length (score_counts res))
           \<and> (length (score_counts res) \<le> 10 \<longrightarrow> most_common_scores res = ranked)"
proof -
  from assms(2) obtain r where
    loop: "simulation_loop (nat num) h a neutral (initial_results h a num neutral) g = (Inr r, g')"
    and res: "score_counts res = score_counts r"
      "most_common_scores res = take 10 (sorted_by_count_reverse
          (map (\<lambda>(k, v). \<lparr>score = k, count_e = v, prob = real v / real_of_int num\<rparr>)
               (score_counts r)))"
      "num_simulations res = num_simulations r"
    by (auto simp: run_simulations_def split: prod.splits sum.splits if_splits)
  have "num_simulations r = num"
    using simulation_loop_counts [OF loop] by (simp add: initial_results_def)
  then have mc: "most_common_scores res = take 10 (sorted_by_count_reverse (score_entries res))"
    by (simp add: res score_entries_def)
  have len: "length (sorted_by_count_reverse (score_entries res)) = length (score_counts res)"
    by (simp add: sorted_by_count_reverse_def score_entries_def)
  show ?thesis
  proof (intro exI conjI impI allI)
    show "ranked_stable (score_entries res) (sorted_by_count_reverse (score_entries res))"
      by (rule sorted_by_count_reverse_ranked)
    show "rs = sorted_by_count_reverse (score_entries res)"
      if "ranked_stable (score_entries res) rs" for rs
      using that by (rule ranked_stable_unique)
    show "most_common_scores res = take 10 (sorted_by_count_reverse (score_entries res))"
      by (rule mc)
    show "length (most_common_scores res) = min 10 (length (score_counts res))"
      by (simp add: mc len min.commute)
    show "most_common_scores res = sorted_by_count_reverse (score_entries res)"
      if "length (score_counts res) \<le> 10"
      using that by (simp add: mc len)
  qed
qed

theorem most_common_scores_ranked_witness:
  "(1::int) \<le> 4
   \<and> run_simulations team_A team_B 4 False rng0 = (Inr example_result, rng0\<lparr>rng_pos := 8\<rparr>)
   \<and> map fst (score_counts example_result) = [''2-0'', ''0-1'', ''1-1'']
   \<and> ranked_stable (score_entries example_result) (most_common_scores example_result)
   \<and> map score (most_common_scores example_result) = [''0-1'', ''2-0'', ''1-1'']
   \<and> map count_e (most_common_scores example_result) = [2, 1, 1]"
proof -
  have n: "(1::int) \<le> 4" by simp
  from most_common_scores_ranked [OF n example_run] obtain ranked where
    r: "ranked_stable (score_entries example_result) ranked"
    and l: "length (score_counts example_result) \<le> 10 \<longrightarrow>
              most_common_scores example_result = ranked"
    by blast
  have "length (score_counts example_result) \<le> 10"
    by (simp add: example_result_def)
  with l r have "ranked_stable (score_entries example_result) (most_common_scores example_result)"
    by simp
  then show ?thesis
    using example_run by (simp add: example_result_def)
qed

subsection \<open>Failing trials\<close>









end
